theory Spec2Isabelle
  imports Main "HOL-Library.Word" "HOL-Library.Multiset" "HOL-Library.Product_Lexorder"
begin

section \<open>Golf Shot DB: the storage schema and the JSON endpoints of app.py\<close>

text \<open>
  The server of \<^verbatim>\<open>app.py\<close> is a set of Flask handlers over three PostgreSQL tables.
  Each handler reads the JSON body, builds the parameter tuple of one SQL statement,
  executes it, commits and answers with a JSON envelope; any exception is caught by the
  handler's \<^verbatim>\<open>except Exception\<close> and answered with \<^verbatim>\<open>success: false\<close> and HTTP 500.

  The model is a state-passing one: a handler is a function from the database to a
  response and the database after the call. PostgreSQL is taken to be reachable, and the
  body to be a JSON object; what the model covers are the outcomes that the request and
  the stored rows decide.
\<close>

subsection \<open>Column values and statement parameters\<close>

text \<open>
  \<^verbatim>\<open>BIGINT\<close> and \<^verbatim>\<open>INTEGER\<close> values are integers (a stored value is always within the
  range of its column, since the conversion refuses any other), \<^verbatim>\<open>TIMESTAMP\<close> values
  are microsecond counts, \<^verbatim>\<open>DOUBLE PRECISION\<close> and \<^verbatim>\<open>REAL\<close> values are carried as
  their IEEE bit patterns (no handler computes with them). A nullable column holds an
  \<open>option\<close>, with \<open>None\<close> for SQL \<^verbatim>\<open>NULL\<close>.
\<close>

type_synonym bigint = int
type_synonym integer4 = int
type_synonym timestamp = int
type_synonym float8 = "64 word"
type_synonym float4 = "32 word"

text \<open>
  A Python value handed to \<^verbatim>\<open>cur.execute\<close> for a column of some type is adapted by
  psycopg2 and converted by PostgreSQL. Seen from the column there are three outcomes:
  Python's \<^verbatim>\<open>None\<close> is \<^verbatim>\<open>NULL\<close>; a value that converts is the converted value (the
  client sends \<^verbatim>\<open>score\<close> as the string of a number and \<^verbatim>\<open>date\<close> as an ISO string,
  both of which convert); anything else (\<^verbatim>\<open>'abc'\<close> for an integer column, a string
  longer than a \<^verbatim>\<open>VARCHAR(50)\<close>, a JSON object) makes the statement fail.
  A field of a request body is such a parameter, or is absent (\<open>None\<close>).
\<close>

datatype 'a sqlparam = PNull | PVal 'a | PBad

type_synonym 'a field = "'a sqlparam option"

datatype error =
    KeyError string
  | DataError
  | NotNullViolation
  | UniqueViolation
  | ForeignKeyViolation
  | SequenceExhausted

fun bad :: "'a sqlparam \<Rightarrow> bool" where
  "bad PBad = True"
| "bad _ = False"

fun col :: "'a sqlparam \<Rightarrow> 'a option" where
  "col (PVal v) = Some v"
| "col _ = None"

fun not_null :: "'a sqlparam \<Rightarrow> error + 'a" where
  "not_null (PVal v) = Inr v"
| "not_null _ = Inl NotNullViolation"

fun bind :: "'e + 'a \<Rightarrow> ('a \<Rightarrow> 'e + 'b) \<Rightarrow> 'e + 'b" where
  "bind (Inl e) f = Inl e"
| "bind (Inr x) f = f x"

text \<open>\<^verbatim>\<open>data[k]\<close> raises \<^verbatim>\<open>KeyError\<close> on an absent key; \<^verbatim>\<open>data.get(k, d)\<close> gives \<^verbatim>\<open>d\<close>
  only then, and \<^verbatim>\<open>data.get(k)\<close> gives \<^verbatim>\<open>None\<close>. A key that is present with the JSON
  value \<^verbatim>\<open>null\<close> is present.\<close>

definition getitem :: "string \<Rightarrow> 'a field \<Rightarrow> error + 'a sqlparam" where
  "getitem k v = (case v of None \<Rightarrow> Inl (KeyError k) | Some x \<Rightarrow> Inr x)"

definition get_default :: "'a field \<Rightarrow> 'a sqlparam \<Rightarrow> 'a sqlparam" where
  "get_default v d = (case v of None \<Rightarrow> d | Some x \<Rightarrow> x)"

definition get :: "'a field \<Rightarrow> 'a sqlparam" where
  "get v = get_default v PNull"

subsection \<open>The schema of \<^verbatim>\<open>init_db\<close>\<close>

record round_row =
  r_round_id :: bigint
  r_date :: timestamp
  r_course_name :: "string option"
  r_total_holes :: "integer4 option"
  r_total_shots :: "integer4 option"
  r_total_score :: "integer4 option"
  r_weather :: "string option"
  r_notes :: "string option"
  r_synced_to_local :: "bool option"
  r_created_at :: "timestamp option"

record shot_row =
  s_shot_id :: integer4
  s_round_id :: bigint
  s_hole :: integer4
  s_shot_number :: integer4
  s_club :: string
  s_shot_type :: string
  s_latitude :: float8
  s_longitude :: float8
  s_accuracy :: "float4 option"
  s_distance :: "integer4 option"
  s_elevation_change :: "float4 option"
  s_wind_speed :: "integer4 option"
  s_wind_direction :: "string option"
  s_timestamp :: "timestamp option"
  s_created_at :: "timestamp option"

record hole_row =
  h_hole_id :: integer4
  h_round_id :: bigint
  h_hole_number :: integer4
  h_score :: integer4
  h_par :: "integer4 option"
  h_fairway_hit :: "bool option"
  h_green_in_regulation :: "bool option"
  h_putts :: "integer4 option"
  h_notes :: "string option"
  h_created_at :: "timestamp option"

text \<open>
  The database: the three tables, each a list of rows in insertion order, and the last
  values of the two sequences behind the \<^verbatim>\<open>SERIAL\<close> columns \<^verbatim>\<open>shot_id\<close> and
  \<^verbatim>\<open>hole_id\<close>.
\<close>

record db =
  rounds :: "round_row list"
  shots :: "shot_row list"
  holes :: "hole_row list"
  shots_seq :: int
  holes_seq :: int

text \<open>The clocks a call reads: \<^verbatim>\<open>datetime.now()\<close> of the application and
  \<^verbatim>\<open>CURRENT_TIMESTAMP\<close> of the database server.\<close>

record env =
  app_clock :: timestamp
  db_clock :: timestamp

text \<open>\<^verbatim>\<open>init_db\<close> on a fresh database: three empty tables, both sequences unused.\<close>

definition init_db :: db where
  "init_db = \<lparr>rounds = [], shots = [], holes = [], shots_seq = 0, holes_seq = 0\<rparr>"

text \<open>
  \<^verbatim>\<open>nextval\<close> of a \<^verbatim>\<open>SERIAL\<close> column's sequence: a 32-bit sequence that does not
  cycle. The new last value stays even when the statement that drew it fails.
\<close>

definition serial_max :: int where
  "serial_max = 2147483647"

definition nextval :: "int \<Rightarrow> error + int" where
  "nextval last_value = (if serial_max \<le> last_value then Inl SequenceExhausted else Inr (last_value + 1))"

definition round_ids :: "db \<Rightarrow> bigint set" where
  "round_ids d = set (map r_round_id (rounds d))"

subsection \<open>Responses\<close>

record export_item =
  x_round :: round_row
  x_shots :: "shot_row list"
  x_holes :: "hole_row list"

datatype response =
    Success
  | SuccessShot integer4
  | SuccessExport "export_item list"
  | Failure error
  | Healthy
  | Page

fun status :: "response \<Rightarrow> nat" where
  "status (Failure e) = 500"
| "status _ = 200"

fun succeeded :: "response \<Rightarrow> bool" where
  "succeeded Success = True"
| "succeeded (SuccessShot i) = True"
| "succeeded (SuccessExport xs) = True"
| "succeeded _ = False"

subsection \<open>\<^verbatim>\<open>POST /api/shot\<close>\<close>

record shot_request =
  q_round_id :: "bigint field"
  q_hole :: "integer4 field"
  q_shot_number :: "integer4 field"
  q_club :: "string field"
  q_shot_type :: "string field"
  q_latitude :: "float8 field"
  q_longitude :: "float8 field"
  q_accuracy :: "float4 field"
  q_distance :: "integer4 field"
  q_timestamp :: "timestamp field"

record shot_params =
  sp_round_id :: "bigint sqlparam"
  sp_hole :: "integer4 sqlparam"
  sp_shot_number :: "integer4 sqlparam"
  sp_club :: "string sqlparam"
  sp_shot_type :: "string sqlparam"
  sp_latitude :: "float8 sqlparam"
  sp_longitude :: "float8 sqlparam"
  sp_accuracy :: "float4 sqlparam"
  sp_distance :: "integer4 sqlparam"
  sp_timestamp :: "timestamp sqlparam"

text \<open>The parameter tuple of \<^verbatim>\<open>save_shot\<close>, evaluated left to right.\<close>

definition shot_args :: "env \<Rightarrow> shot_request \<Rightarrow> error + shot_params" where
  "shot_args e q =
     bind (getitem ''round_id'' (q_round_id q)) (\<lambda>a1.
     bind (getitem ''hole'' (q_hole q)) (\<lambda>a2.
     bind (getitem ''shot_number'' (q_shot_number q)) (\<lambda>a3.
     bind (getitem ''club'' (q_club q)) (\<lambda>a4.
     bind (getitem ''shot_type'' (q_shot_type q)) (\<lambda>a5.
     bind (getitem ''latitude'' (q_latitude q)) (\<lambda>a6.
     bind (getitem ''longitude'' (q_longitude q)) (\<lambda>a7.
     Inr \<lparr>sp_round_id = a1, sp_hole = a2, sp_shot_number = a3, sp_club = a4,
          sp_shot_type = a5, sp_latitude = a6, sp_longitude = a7,
          sp_accuracy = get (q_accuracy q),
          sp_distance = get (q_distance q),
          sp_timestamp = get_default (q_timestamp q) (PVal (app_clock e))\<rparr>)))))))"

definition shot_params_bad :: "shot_params \<Rightarrow> bool" where
  "shot_params_bad p =
     (bad (sp_round_id p) \<or> bad (sp_hole p) \<or> bad (sp_shot_number p) \<or> bad (sp_club p) \<or>
      bad (sp_shot_type p) \<or> bad (sp_latitude p) \<or> bad (sp_longitude p) \<or>
      bad (sp_accuracy p) \<or> bad (sp_distance p) \<or> bad (sp_timestamp p))"

text \<open>The row of the \<^verbatim>\<open>INSERT INTO shots\<close>: the ten columns named by the statement, the
  drawn \<^verbatim>\<open>shot_id\<close>, the default of \<^verbatim>\<open>created_at\<close> and \<^verbatim>\<open>NULL\<close> elsewhere. The columns
  declared \<^verbatim>\<open>NOT NULL\<close> refuse \<^verbatim>\<open>NULL\<close>.\<close>

definition shot_row_of :: "env \<Rightarrow> integer4 \<Rightarrow> shot_params \<Rightarrow> error + shot_row" where
  "shot_row_of e i p =
     bind (not_null (sp_round_id p)) (\<lambda>r.
     bind (not_null (sp_hole p)) (\<lambda>h.
     bind (not_null (sp_shot_number p)) (\<lambda>n.
     bind (not_null (sp_club p)) (\<lambda>c.
     bind (not_null (sp_shot_type p)) (\<lambda>t.
     bind (not_null (sp_latitude p)) (\<lambda>la.
     bind (not_null (sp_longitude p)) (\<lambda>lo.
     Inr \<lparr>s_shot_id = i, s_round_id = r, s_hole = h, s_shot_number = n, s_club = c,
          s_shot_type = t, s_latitude = la, s_longitude = lo,
          s_accuracy = col (sp_accuracy p), s_distance = col (sp_distance p),
          s_elevation_change = None, s_wind_speed = None, s_wind_direction = None,
          s_timestamp = col (sp_timestamp p),
          s_created_at = Some (db_clock e)\<rparr>)))))))"

text \<open>
  \<^verbatim>\<open>INSERT INTO shots ... RETURNING shot_id\<close>. A parameter that does not convert fails
  the statement before it runs. Then the identifier is drawn, the \<^verbatim>\<open>NOT NULL\<close> columns
  and the primary key are checked, and last the foreign key to \<^verbatim>\<open>rounds\<close>.
\<close>

definition insert_shot :: "env \<Rightarrow> shot_params \<Rightarrow> db \<Rightarrow> (error + integer4) \<times> db" where
  "insert_shot e p d =
     (if shot_params_bad p then (Inl DataError, d)
      else case nextval (shots_seq d) of
        Inl err \<Rightarrow> (Inl err, d)
      | Inr i \<Rightarrow>
          (let d1 = d\<lparr>shots_seq := i\<rparr> in
           case shot_row_of e i p of
             Inl err \<Rightarrow> (Inl err, d1)
           | Inr row \<Rightarrow>
               if i \<in> set (map s_shot_id (shots d)) then (Inl UniqueViolation, d1)
               else if s_round_id row \<notin> round_ids d then (Inl ForeignKeyViolation, d1)
               else (Inr i, d1\<lparr>shots := shots d @ [row]\<rparr>)))"

definition save_shot :: "env \<Rightarrow> shot_request \<Rightarrow> db \<Rightarrow> response \<times> db" where
  "save_shot e q d =
     (case shot_args e q of
        Inl err \<Rightarrow> (Failure err, d)
      | Inr p \<Rightarrow>
          (case insert_shot e p d of
             (Inl err, d') \<Rightarrow> (Failure err, d')
           | (Inr i, d') \<Rightarrow> (SuccessShot i, d')))"

subsection \<open>\<^verbatim>\<open>POST /api/hole\<close>\<close>

record hole_request =
  hq_round_id :: "bigint field"
  hq_hole :: "integer4 field"
  hq_score :: "integer4 field"
  hq_notes :: "string field"

record hole_params =
  hp_round_id :: "bigint sqlparam"
  hp_hole :: "integer4 sqlparam"
  hp_score :: "integer4 sqlparam"
  hp_notes :: "string sqlparam"

definition hole_args :: "hole_request \<Rightarrow> error + hole_params" where
  "hole_args q =
     bind (getitem ''round_id'' (hq_round_id q)) (\<lambda>a1.
     bind (getitem ''hole'' (hq_hole q)) (\<lambda>a2.
     bind (getitem ''score'' (hq_score q)) (\<lambda>a3.
     Inr \<lparr>hp_round_id = a1, hp_hole = a2, hp_score = a3,
          hp_notes = get_default (hq_notes q) (PVal '''')\<rparr>)))"

definition hole_params_bad :: "hole_params \<Rightarrow> bool" where
  "hole_params_bad p =
     (bad (hp_round_id p) \<or> bad (hp_hole p) \<or> bad (hp_score p) \<or> bad (hp_notes p))"

definition hole_row_of :: "env \<Rightarrow> integer4 \<Rightarrow> hole_params \<Rightarrow> error + hole_row" where
  "hole_row_of e i p =
     bind (not_null (hp_round_id p)) (\<lambda>r.
     bind (not_null (hp_hole p)) (\<lambda>h.
     bind (not_null (hp_score p)) (\<lambda>s.
     Inr \<lparr>h_hole_id = i, h_round_id = r, h_hole_number = h, h_score = s,
          h_par = None, h_fairway_hit = None, h_green_in_regulation = None,
          h_putts = None, h_notes = col (hp_notes p),
          h_created_at = Some (db_clock e)\<rparr>)))"

definition insert_hole :: "env \<Rightarrow> hole_params \<Rightarrow> db \<Rightarrow> (error + unit) \<times> db" where
  "insert_hole e p d =
     (if hole_params_bad p then (Inl DataError, d)
      else case nextval (holes_seq d) of
        Inl err \<Rightarrow> (Inl err, d)
      | Inr i \<Rightarrow>
          (let d1 = d\<lparr>holes_seq := i\<rparr> in
           case hole_row_of e i p of
             Inl err \<Rightarrow> (Inl err, d1)
           | Inr row \<Rightarrow>
               if i \<in> set (map h_hole_id (holes d)) then (Inl UniqueViolation, d1)
               else if h_round_id row \<notin> round_ids d then (Inl ForeignKeyViolation, d1)
               else (Inr (), d1\<lparr>holes := holes d @ [row]\<rparr>)))"

definition save_hole :: "env \<Rightarrow> hole_request \<Rightarrow> db \<Rightarrow> response \<times> db" where
  "save_hole e q d =
     (case hole_args q of
        Inl err \<Rightarrow> (Failure err, d)
      | Inr p \<Rightarrow>
          (case insert_hole e p d of
             (Inl err, d') \<Rightarrow> (Failure err, d')
           | (Inr u, d') \<Rightarrow> (Success, d')))"

subsection \<open>\<^verbatim>\<open>POST /api/round\<close>\<close>

record round_request =
  u_round_id :: "bigint field"
  u_date :: "timestamp field"
  u_course_name :: "string field"
  u_total_holes :: "integer4 field"
  u_total_shots :: "integer4 field"

record round_params =
  rp_round_id :: "bigint sqlparam"
  rp_date :: "timestamp sqlparam"
  rp_course_name :: "string sqlparam"
  rp_total_holes :: "integer4 sqlparam"
  rp_total_shots :: "integer4 sqlparam"

definition round_args :: "env \<Rightarrow> round_request \<Rightarrow> error + round_params" where
  "round_args e q =
     bind (getitem ''round_id'' (u_round_id q)) (\<lambda>a1.
     Inr \<lparr>rp_round_id = a1,
          rp_date = get_default (u_date q) (PVal (app_clock e)),
          rp_course_name = get_default (u_course_name q) (PVal ''''),
          rp_total_holes = get (u_total_holes q),
          rp_total_shots = get (u_total_shots q)\<rparr>)"

definition round_params_bad :: "round_params \<Rightarrow> bool" where
  "round_params_bad p =
     (bad (rp_round_id p) \<or> bad (rp_date p) \<or> bad (rp_course_name p) \<or>
      bad (rp_total_holes p) \<or> bad (rp_total_shots p))"

text \<open>The row proposed for insertion: the five columns of the statement, the defaults of
  \<^verbatim>\<open>synced_to_local\<close> and \<^verbatim>\<open>created_at\<close>, \<^verbatim>\<open>NULL\<close> elsewhere.\<close>

definition round_row_of :: "env \<Rightarrow> round_params \<Rightarrow> error + round_row" where
  "round_row_of e p =
     bind (not_null (rp_round_id p)) (\<lambda>r.
     bind (not_null (rp_date p)) (\<lambda>dt.
     Inr \<lparr>r_round_id = r, r_date = dt, r_course_name = col (rp_course_name p),
          r_total_holes = col (rp_total_holes p), r_total_shots = col (rp_total_shots p),
          r_total_score = None, r_weather = None, r_notes = None,
          r_synced_to_local = Some False, r_created_at = Some (db_clock e)\<rparr>))"

text \<open>\<^verbatim>\<open>DO UPDATE SET\<close>: the four columns taken from the proposed row (\<^verbatim>\<open>EXCLUDED\<close>).\<close>

definition do_update :: "round_row \<Rightarrow> round_row \<Rightarrow> round_row" where
  "do_update excluded row =
     row\<lparr>r_course_name := r_course_name excluded,
         r_total_holes := r_total_holes excluded,
         r_total_shots := r_total_shots excluded,
         r_date := r_date excluded\<rparr>"

text \<open>
  \<^verbatim>\<open>INSERT INTO rounds ... ON CONFLICT (round_id) DO UPDATE\<close>. The proposed row is
  checked against the \<^verbatim>\<open>NOT NULL\<close> columns before the conflict is looked for, so a
  \<^verbatim>\<open>NULL\<close> date fails the statement for a new and for a known \<^verbatim>\<open>round_id\<close> alike.
\<close>

definition upsert_round :: "env \<Rightarrow> round_params \<Rightarrow> db \<Rightarrow> (error + unit) \<times> db" where
  "upsert_round e p d =
     (if round_params_bad p then (Inl DataError, d)
      else case round_row_of e p of
        Inl err \<Rightarrow> (Inl err, d)
      | Inr new \<Rightarrow>
          if r_round_id new \<in> round_ids d
          then (Inr (), d\<lparr>rounds :=
                  map (\<lambda>row. if r_round_id row = r_round_id new then do_update new row else row)
                    (rounds d)\<rparr>)
          else (Inr (), d\<lparr>rounds := rounds d @ [new]\<rparr>))"

definition save_round :: "env \<Rightarrow> round_request \<Rightarrow> db \<Rightarrow> response \<times> db" where
  "save_round e q d =
     (case round_args e q of
        Inl err \<Rightarrow> (Failure err, d)
      | Inr p \<Rightarrow>
          (case upsert_round e p d of
             (Inl err, d') \<Rightarrow> (Failure err, d')
           | (Inr u, d') \<Rightarrow> (Success, d')))"

subsection \<open>\<^verbatim>\<open>GET /api/export/unsynced\<close>\<close>

text \<open>
  \<^verbatim>\<open>ORDER BY\<close> is a sort of the selected rows on the key; where keys are equal,
  PostgreSQL promises no order and the model keeps the rows' table order.
  \<^verbatim>\<open>synced_to_local = FALSE\<close> selects neither \<^verbatim>\<open>TRUE\<close> nor \<^verbatim>\<open>NULL\<close>.
\<close>

definition select_unsynced :: "db \<Rightarrow> round_row list" where
  "select_unsynced d =
     sort_key (\<lambda>r. - r_date r) (filter (\<lambda>r. r_synced_to_local r = Some False) (rounds d))"

definition select_shots :: "db \<Rightarrow> bigint \<Rightarrow> shot_row list" where
  "select_shots d rid =
     sort_key (\<lambda>s. (s_hole s, s_shot_number s)) (filter (\<lambda>s. s_round_id s = rid) (shots d))"

definition select_holes :: "db \<Rightarrow> bigint \<Rightarrow> hole_row list" where
  "select_holes d rid =
     sort_key h_hole_number (filter (\<lambda>h. h_round_id h = rid) (holes d))"

definition export_unsynced :: "db \<Rightarrow> response \<times> db" where
  "export_unsynced d =
     (SuccessExport
        (map (\<lambda>round_data.
               \<lparr>x_round = round_data,
                x_shots = select_shots d (r_round_id round_data),
                x_holes = select_holes d (r_round_id round_data)\<rparr>)
             (select_unsynced d)),
      d)"

subsection \<open>\<^verbatim>\<open>POST /api/mark-synced/<round_id>\<close>\<close>

text \<open>The identifier is the path segment, a string, compared with the \<^verbatim>\<open>BIGINT\<close> column:
  a segment that is no integer of that range fails the statement.\<close>

definition mark_synced :: "bigint sqlparam \<Rightarrow> db \<Rightarrow> response \<times> db" where
  "mark_synced round_id d =
     (case round_id of
        PBad \<Rightarrow> (Failure DataError, d)
      | PNull \<Rightarrow> (Success, d)
      | PVal r \<Rightarrow>
          (Success,
           d\<lparr>rounds :=
               map (\<lambda>row. if r_round_id row = r then row\<lparr>r_synced_to_local := Some True\<rparr> else row)
                 (rounds d)\<rparr>))"

subsection \<open>\<^verbatim>\<open>GET /health\<close>, \<^verbatim>\<open>GET /\<close> and sequences of calls\<close>

definition health_check :: "db \<Rightarrow> response \<times> db" where
  "health_check d = (Healthy, d)"

definition index :: "db \<Rightarrow> response \<times> db" where
  "index d = (Page, d)"

datatype call =
    SaveShot env shot_request
  | SaveHole env hole_request
  | SaveRound env round_request
  | ExportUnsynced
  | MarkSynced "bigint sqlparam"
  | HealthCheck
  | Index

fun handle :: "call \<Rightarrow> db \<Rightarrow> response \<times> db" where
  "handle (SaveShot e q) d = save_shot e q d"
| "handle (SaveHole e q) d = save_hole e q d"
| "handle (SaveRound e q) d = save_round e q d"
| "handle ExportUnsynced d = export_unsynced d"
| "handle (MarkSynced r) d = mark_synced r d"
| "handle HealthCheck d = health_check d"
| "handle Index d = index d"

fun run :: "call list \<Rightarrow> db \<Rightarrow> db" where
  "run [] d = d"
| "run (c # cs) d = run cs (snd (handle c d))"

section \<open>Properties of the round upsert\<close>

lemma do_update_frame [simp]:
  "r_round_id (do_update new row) = r_round_id row"
  "r_synced_to_local (do_update new row) = r_synced_to_local row"
  "r_created_at (do_update new row) = r_created_at row"
  by (simp_all add: do_update_def)


lemma round_row_of_synced:
  "round_row_of e p = Inr new \<Longrightarrow> r_synced_to_local new = Some False"
  by (cases "rp_round_id p"; cases "rp_date p") (auto simp: round_row_of_def)



lemma upsert_round_rounds:
  "rounds (snd (upsert_round e p d)) = rounds d \<or>
   (\<exists>new. round_row_of e p = Inr new \<and> r_round_id new \<notin> round_ids d \<and>
      rounds (snd (upsert_round e p d)) = rounds d @ [new]) \<or>
   (\<exists>new. round_row_of e p = Inr new \<and> r_round_id new \<in> round_ids d \<and>
      rounds (snd (upsert_round e p d)) =
        map (\<lambda>row. if r_round_id row = r_round_id new then do_update new row else row) (rounds d))"
  by (auto simp: upsert_round_def split: sum.splits)

lemma save_round_snd:
  "snd (save_round e q d) =
     (case round_args e q of Inl err \<Rightarrow> d | Inr p \<Rightarrow> snd (upsert_round e p d))"
  by (auto simp: save_round_def split: sum.splits prod.splits)

text \<open>The three things a round upsert can do to the rounds table: nothing (the call
  failed), append one unsynced row with a new identifier, or rewrite the rows of a known
  identifier with \<^const>\<open>do_update\<close>.\<close>

lemma save_round_rounds:
  "rounds (snd (save_round e q d)) = rounds d \<or>
   (\<exists>new. r_round_id new \<notin> round_ids d \<and> r_synced_to_local new = Some False \<and>
      rounds (snd (save_round e q d)) = rounds d @ [new]) \<or>
   (\<exists>new. r_round_id new \<in> round_ids d \<and>
      rounds (snd (save_round e q d)) =
        map (\<lambda>row. if r_round_id row = r_round_id new then do_update new row else row) (rounds d))"
proof (cases "round_args e q")
  case (Inl err)
  then show ?thesis by (simp add: save_round_snd)
next
  case (Inr p)
  from upsert_round_rounds[of e p d] round_row_of_synced[of e p] Inr show ?thesis
    by (auto simp: save_round_snd)
qed






text \<open>
  C2. For every database, every request and every row of the rounds table, the round
  upsert leaves the row in its place with its identifier, its \<^verbatim>\<open>synced_to_local\<close> flag
  and its \<^verbatim>\<open>created_at\<close> timestamp as they were, whether the call succeeds or fails.
\<close>

theorem save_round_frame:
  "\<forall>i<length (rounds d).
     i < length (rounds (snd (save_round e q d))) \<and>
     r_round_id (rounds (snd (save_round e q d)) ! i) = r_round_id (rounds d ! i) \<and>
     r_synced_to_local (rounds (snd (save_round e q d)) ! i) = r_synced_to_local (rounds d ! i) \<and>
     r_created_at (rounds (snd (save_round e q d)) ! i) = r_created_at (rounds d ! i)"
  using save_round_rounds[of e q d]
  by (auto simp: nth_append)


theorem save_round_frame_witness:
  "(0::nat) < length (rounds
      \<lparr>rounds =
       [\<lparr>r_round_id = 1001, r_date = 10, r_course_name = Some ''Pebble Creek'',
         r_total_holes = Some 0, r_total_shots = Some 0, r_total_score = None,
         r_weather = None, r_notes = None, r_synced_to_local = Some True,
         r_created_at = Some 11\<rparr>],
      shots = [], holes = [], shots_seq = 0, holes_seq = 0\<rparr>) \<and>
   rounds (snd (save_round \<lparr>app_clock = 300, db_clock = 400\<rparr>
      \<lparr>u_round_id = Some (PVal 1001), u_date = Some (PVal 250),
       u_course_name = Some (PVal ''Spyglass''),
       u_total_holes = Some (PVal 18), u_total_shots = None\<rparr>
      \<lparr>rounds =
       [\<lparr>r_round_id = 1001, r_date = 10, r_course_name = Some ''Pebble Creek'',
         r_total_holes = Some 0, r_total_shots = Some 0, r_total_score = None,
         r_weather = None, r_notes = None, r_synced_to_local = Some True,
         r_created_at = Some 11\<rparr>],
      shots = [], holes = [], shots_seq = 0, holes_seq = 0\<rparr>))
   = [\<lparr>r_round_id = 1001, r_date = 250, r_course_name = Some ''Spyglass'',
       r_total_holes = Some 18, r_total_shots = None, r_total_score = None,
       r_weather = None, r_notes = None, r_synced_to_local = Some True,
       r_created_at = Some 11\<rparr>]"
  (is "_ < length (rounds ?D) \<and> rounds (snd (save_round ?E ?Q _)) = _")
  using save_round_frame[of ?D ?E ?Q, rule_format, of 0]
  by (simp add: save_round_def round_args_def getitem_def get_default_def get_def
      upsert_round_def round_params_bad_def round_row_of_def round_ids_def do_update_def)

section \<open>Properties of the export and of mark-synced\<close>




lemma mark_synced_val:
  "mark_synced (PVal r) d =
     (Success, d\<lparr>rounds :=
        map (\<lambda>row. if r_round_id row = r then row\<lparr>r_synced_to_local := Some True\<rparr> else row)
          (rounds d)\<rparr>)"
  by (simp add: mark_synced_def)

lemma map_id_if_absent:
  "k \<notin> f ` set xs \<Longrightarrow> map (\<lambda>x. if f x = k then g x else x) xs = xs"
  by (induction xs) auto

text \<open>
  C4. For every round identifier (a \<^verbatim>\<open>BIGINT\<close> value) and every database, mark-synced
  succeeds. It keeps the rows of the rounds table in their places, sets
  \<^verbatim>\<open>synced_to_local\<close> to true in the row of that identifier and changes nothing else in
  it, and leaves every other row, the shots and the holes as they were. Applied a second
  time it gives the same response and the same database as the first time. When no row
  has that identifier it succeeds with the database unchanged, so no row is created.
\<close>

theorem mark_synced_spec:
  "fst (mark_synced (PVal r) d) = Success \<and>
   length (rounds (snd (mark_synced (PVal r) d))) = length (rounds d) \<and>
   (\<forall>i<length (rounds d).
      rounds (snd (mark_synced (PVal r) d)) ! i =
        (if r_round_id (rounds d ! i) = r
         then (rounds d ! i)\<lparr>r_synced_to_local := Some True\<rparr>
         else rounds d ! i)) \<and>
   shots (snd (mark_synced (PVal r) d)) = shots d \<and>
   holes (snd (mark_synced (PVal r) d)) = holes d \<and>
   mark_synced (PVal r) (snd (mark_synced (PVal r) d)) = mark_synced (PVal r) d \<and>
   (r \<notin> round_ids d \<longrightarrow> mark_synced (PVal r) d = (Success, d))"
proof -
  have idem: "mark_synced (PVal r) (snd (mark_synced (PVal r) d)) = mark_synced (PVal r) d"
    by (simp add: mark_synced_val o_def cong: if_cong)
  have absent: "mark_synced (PVal r) d = (Success, d)" if "r \<notin> round_ids d"
    using that by (simp add: mark_synced_val round_ids_def map_id_if_absent)
  from idem absent show ?thesis
    by (simp add: mark_synced_val)
qed

theorem mark_synced_spec_witness:
  "7 \<notin> round_ids
     \<lparr>rounds =
       [\<lparr>r_round_id = 1001, r_date = 10, r_course_name = Some ''Pebble Creek'',
         r_total_holes = Some 0, r_total_shots = Some 0, r_total_score = None,
         r_weather = None, r_notes = None, r_synced_to_local = Some False,
         r_created_at = Some 11\<rparr>],
      shots = [], holes = [], shots_seq = 0, holes_seq = 0\<rparr> \<and>
   mark_synced (PVal 7)
     \<lparr>rounds =
       [\<lparr>r_round_id = 1001, r_date = 10, r_course_name = Some ''Pebble Creek'',
         r_total_holes = Some 0, r_total_shots = Some 0, r_total_score = None,
         r_weather = None, r_notes = None, r_synced_to_local = Some False,
         r_created_at = Some 11\<rparr>],
      shots = [], holes = [], shots_seq = 0, holes_seq = 0\<rparr>
   = (Success,
     \<lparr>rounds =
       [\<lparr>r_round_id = 1001, r_date = 10, r_course_name = Some ''Pebble Creek'',
         r_total_holes = Some 0, r_total_shots = Some 0, r_total_score = None,
         r_weather = None, r_notes = None, r_synced_to_local = Some False,
         r_created_at = Some 11\<rparr>],
      shots = [], holes = [], shots_seq = 0, holes_seq = 0\<rparr>) \<and>
   mark_synced (PVal 1001)
     \<lparr>rounds =
       [\<lparr>r_round_id = 1001, r_date = 10, r_course_name = Some ''Pebble Creek'',
         r_total_holes = Some 0, r_total_shots = Some 0, r_total_score = None,
         r_weather = None, r_notes = None, r_synced_to_local = Some False,
         r_created_at = Some 11\<rparr>],
      shots = [], holes = [], shots_seq = 0, holes_seq = 0\<rparr>
   = (Success,
     \<lparr>rounds =
       [\<lparr>r_round_id = 1001, r_date = 10, r_course_name = Some ''Pebble Creek'',
         r_total_holes = Some 0, r_total_shots = Some 0, r_total_score = None,
         r_weather = None, r_notes = None, r_synced_to_local = Some True,
         r_created_at = Some 11\<rparr>],
      shots = [], holes = [], shots_seq = 0, holes_seq = 0\<rparr>) \<and>
   mark_synced (PVal 1001)
     \<lparr>rounds =
       [\<lparr>r_round_id = 1001, r_date = 10, r_course_name = Some ''Pebble Creek'',
         r_total_holes = Some 0, r_total_shots = Some 0, r_total_score = None,
         r_weather = None, r_notes = None, r_synced_to_local = Some True,
         r_created_at = Some 11\<rparr>],
      shots = [], holes = [], shots_seq = 0, holes_seq = 0\<rparr>
   = (Success,
     \<lparr>rounds =
       [\<lparr>r_round_id = 1001, r_date = 10, r_course_name = Some ''Pebble Creek'',
         r_total_holes = Some 0, r_total_shots = Some 0, r_total_score = None,
         r_weather = None, r_notes = None, r_synced_to_local = Some True,
         r_created_at = Some 11\<rparr>],
      shots = [], holes = [], shots_seq = 0, holes_seq = 0\<rparr>)"
  (is "7 \<notin> round_ids ?D \<and> _ \<and> _ = (Success, ?D') \<and> _")
proof -
  have absent: "7 \<notin> round_ids ?D"
    by (simp add: round_ids_def)
  have once: "snd (mark_synced (PVal 1001) ?D) = ?D'"
    by (simp add: mark_synced_def)
  from mark_synced_spec[of 7 ?D] absent mark_synced_spec[of 1001 ?D] once
  show ?thesis by (metis prod.collapse)
qed

section \<open>Properties of recording shots and holes\<close>

lemma bind_Inr_iff [simp]: "bind m f = Inr y \<longleftrightarrow> (\<exists>x. m = Inr x \<and> f x = Inr y)"
  by (cases m) auto

lemma bind_Inl_iff: "bind m f = Inl e \<longleftrightarrow> m = Inl e \<or> (\<exists>x. m = Inr x \<and> f x = Inl e)"
  by (cases m) auto

lemma getitem_Inr_iff [simp]: "getitem k v = Inr x \<longleftrightarrow> v = Some x"
  by (simp add: getitem_def split: option.splits)

lemma getitem_Inl_iff [simp]: "getitem k v = Inl e \<longleftrightarrow> v = None \<and> e = KeyError k"
  by (auto simp: getitem_def split: option.splits)

lemma not_null_Inr_iff [simp]: "not_null x = Inr v \<longleftrightarrow> x = PVal v"
  by (cases x) auto

lemma not_null_Inl: "not_null x = Inl e \<Longrightarrow> e = NotNullViolation"
  by (cases x) auto

lemma shot_args_Inr:
  "shot_args e q = Inr p \<longleftrightarrow>
     q_round_id q = Some (sp_round_id p) \<and> q_hole q = Some (sp_hole p) \<and>
     q_shot_number q = Some (sp_shot_number p) \<and> q_club q = Some (sp_club p) \<and>
     q_shot_type q = Some (sp_shot_type p) \<and> q_latitude q = Some (sp_latitude p) \<and>
     q_longitude q = Some (sp_longitude p) \<and>
     sp_accuracy p = get (q_accuracy q) \<and> sp_distance p = get (q_distance q) \<and>
     sp_timestamp p = get_default (q_timestamp q) (PVal (app_clock e))"
  by (cases p) (auto simp: shot_args_def)

lemma shot_args_Inl:
  "shot_args e q = Inl err \<Longrightarrow> \<exists>k. err = KeyError k"
  by (auto simp: shot_args_def bind_Inl_iff)

lemma shot_args_missing:
  assumes "q_round_id q = None \<or> q_hole q = None \<or> q_shot_number q = None \<or>
     q_club q = None \<or> q_shot_type q = None \<or> q_latitude q = None \<or> q_longitude q = None"
  shows "\<exists>k. shot_args e q = Inl (KeyError k)"
proof (cases "shot_args e q")
  case (Inl err)
  then show ?thesis using shot_args_Inl by blast
next
  case (Inr p)
  with assms show ?thesis by (auto simp: shot_args_Inr)
qed

lemma shot_row_of_Inr:
  "shot_row_of e i p = Inr row \<longleftrightarrow>
     sp_round_id p = PVal (s_round_id row) \<and> sp_hole p = PVal (s_hole row) \<and>
     sp_shot_number p = PVal (s_shot_number row) \<and> sp_club p = PVal (s_club row) \<and>
     sp_shot_type p = PVal (s_shot_type row) \<and> sp_latitude p = PVal (s_latitude row) \<and>
     sp_longitude p = PVal (s_longitude row) \<and>
     row = \<lparr>s_shot_id = i, s_round_id = s_round_id row, s_hole = s_hole row,
            s_shot_number = s_shot_number row, s_club = s_club row,
            s_shot_type = s_shot_type row, s_latitude = s_latitude row,
            s_longitude = s_longitude row,
            s_accuracy = col (sp_accuracy p), s_distance = col (sp_distance p),
            s_elevation_change = None, s_wind_speed = None, s_wind_direction = None,
            s_timestamp = col (sp_timestamp p),
            s_created_at = Some (db_clock e)\<rparr>"
  by (cases row) (auto simp: shot_row_of_def)

lemma nextval_Inr_iff [simp]: "nextval v = Inr i \<longleftrightarrow> v < serial_max \<and> i = v + 1"
  by (auto simp: nextval_def)

lemma nextval_Inl_iff [simp]: "nextval v = Inl err \<longleftrightarrow> serial_max \<le> v \<and> err = SequenceExhausted"
  by (auto simp: nextval_def)

lemma insert_shot_Inr:
  "insert_shot e p d = (Inr i, d') \<longleftrightarrow>
     (\<exists>row. \<not> shot_params_bad p \<and> shots_seq d < serial_max \<and> i = shots_seq d + 1 \<and>
        shot_row_of e i p = Inr row \<and> i \<notin> set (map s_shot_id (shots d)) \<and>
        s_round_id row \<in> round_ids d \<and>
        d' = d\<lparr>shots_seq := i, shots := shots d @ [row]\<rparr>)"
  by (auto simp: insert_shot_def Let_def split: sum.splits)

lemma insert_shot_Inl:
  "insert_shot e p d = (Inl err, d') \<Longrightarrow>
     rounds d' = rounds d \<and> shots d' = shots d \<and> holes d' = holes d \<and> holes_seq d' = holes_seq d"
  by (auto simp: insert_shot_def Let_def split: sum.splits if_splits)

lemma save_shot_success:
  "save_shot e q d = (SuccessShot i, d') \<longleftrightarrow>
     (\<exists>p. shot_args e q = Inr p \<and> insert_shot e p d = (Inr i, d'))"
  by (auto simp: save_shot_def split: sum.splits prod.splits)

lemma save_shot_cases:
  "(\<exists>err d'. save_shot e q d = (Failure err, d') \<and>
      rounds d' = rounds d \<and> shots d' = shots d \<and> holes d' = holes d) \<or>
   (\<exists>i d'. save_shot e q d = (SuccessShot i, d'))"
proof (cases "shot_args e q")
  case (Inl err)
  then show ?thesis by (simp add: save_shot_def)
next
  case (Inr p)
  obtain res d' where r: "insert_shot e p d = (res, d')" by (cases "insert_shot e p d")
  show ?thesis
  proof (cases res)
    case (Inl err)
    with r insert_shot_Inl[of e p d err d'] Inr show ?thesis by (simp add: save_shot_def)
  next
    case (Inr i)
    with r \<open>shot_args e q = Inr p\<close> show ?thesis by (simp add: save_shot_def)
  qed
qed

lemma save_shot_stored:
  assumes "save_shot e q d = (SuccessShot i, d')"
  shows "\<exists>p row. shot_args e q = Inr p \<and> \<not> shot_params_bad p \<and>
     shots_seq d < serial_max \<and> i = shots_seq d + 1 \<and>
     shot_row_of e i p = Inr row \<and> i \<notin> set (map s_shot_id (shots d)) \<and>
     s_round_id row \<in> round_ids d \<and>
     d' = d\<lparr>shots_seq := i, shots := shots d @ [row]\<rparr>"
  using assms unfolding save_shot_success insert_shot_Inr by blast

lemma save_shot_accepts:
  assumes "shot_args e q = Inr p" and "\<not> shot_params_bad p"
    and "shots_seq d < serial_max" and "shot_row_of e (shots_seq d + 1) p = Inr row"
    and "shots_seq d + 1 \<notin> set (map s_shot_id (shots d))"
    and "s_round_id row \<in> round_ids d"
  shows "save_shot e q d =
     (SuccessShot (shots_seq d + 1),
      d\<lparr>shots_seq := shots_seq d + 1, shots := shots d @ [row]\<rparr>)"
  unfolding save_shot_success insert_shot_Inr using assms by blast

lemma succeeded_save_shot:
  "succeeded (fst (save_shot e q d)) \<longleftrightarrow> (\<exists>i d'. save_shot e q d = (SuccessShot i, d'))"
  using save_shot_cases[of e q d] by auto

lemma hole_args_Inr:
  "hole_args q = Inr p \<longleftrightarrow>
     hq_round_id q = Some (hp_round_id p) \<and> hq_hole q = Some (hp_hole p) \<and>
     hq_score q = Some (hp_score p) \<and> hp_notes p = get_default (hq_notes q) (PVal [])"
  by (cases p) (auto simp: hole_args_def)

lemma hole_row_of_Inr:
  "hole_row_of e i p = Inr row \<Longrightarrow> hp_round_id p = PVal (h_round_id row)"
  by (auto simp: hole_row_of_def)

lemma insert_hole_Inr:
  "insert_hole e p d = (Inr u, d') \<Longrightarrow>
     \<exists>row. hole_row_of e (holes_seq d + 1) p = Inr row \<and> h_round_id row \<in> round_ids d"
  by (auto simp: insert_hole_def Let_def split: sum.splits if_splits)

lemma insert_hole_Inl:
  "insert_hole e p d = (Inl err, d') \<Longrightarrow>
     rounds d' = rounds d \<and> shots d' = shots d \<and> holes d' = holes d \<and> shots_seq d' = shots_seq d"
  by (auto simp: insert_hole_def Let_def split: sum.splits if_splits)

lemma save_hole_cases:
  "(\<exists>err d'. save_hole e q d = (Failure err, d') \<and>
      rounds d' = rounds d \<and> shots d' = shots d \<and> holes d' = holes d) \<or>
   (\<exists>p u d'. hole_args q = Inr p \<and> insert_hole e p d = (Inr u, d') \<and>
      save_hole e q d = (Success, d'))"
proof (cases "hole_args q")
  case (Inl err)
  then show ?thesis by (simp add: save_hole_def)
next
  case (Inr p)
  obtain res d' where r: "insert_hole e p d = (res, d')" by (cases "insert_hole e p d")
  show ?thesis
  proof (cases res)
    case (Inl err)
    with r insert_hole_Inl[of e p d err d'] Inr show ?thesis by (simp add: save_hole_def)
  next
    case (Inr u)
    with r \<open>hole_args q = Inr p\<close> show ?thesis by (simp add: save_hole_def)
  qed
qed

text \<open>
  C5 (as amended). The handlers of shots and holes insert into their own table only, and
  both tables declare a foreign key to \<^verbatim>\<open>rounds\<close>. For every database and every shot or
  hole record whose \<^verbatim>\<open>round_id\<close> is not in the rounds table, submitting the record fails
  with the error envelope and HTTP 500; no round row is created and no shot or hole row
  is stored. A round has to be upserted before a shot or a hole of it is accepted.
\<close>

theorem record_needs_existing_round:
  "(q_round_id q = Some (PVal r) \<and> r \<notin> round_ids d \<longrightarrow>
      \<not> succeeded (fst (save_shot e q d)) \<and> status (fst (save_shot e q d)) = 500 \<and>
      rounds (snd (save_shot e q d)) = rounds d \<and>
      shots (snd (save_shot e q d)) = shots d \<and>
      holes (snd (save_shot e q d)) = holes d) \<and>
   (hq_round_id hq = Some (PVal r) \<and> r \<notin> round_ids d \<longrightarrow>
      \<not> succeeded (fst (save_hole e hq d)) \<and> status (fst (save_hole e hq d)) = 500 \<and>
      rounds (snd (save_hole e hq d)) = rounds d \<and>
      shots (snd (save_hole e hq d)) = shots d \<and>
      holes (snd (save_hole e hq d)) = holes d)"
proof -
  have shot: "\<not> succeeded (fst (save_shot e q d)) \<and> status (fst (save_shot e q d)) = 500 \<and>
      rounds (snd (save_shot e q d)) = rounds d \<and>
      shots (snd (save_shot e q d)) = shots d \<and>
      holes (snd (save_shot e q d)) = holes d"
    if rid: "q_round_id q = Some (PVal r)" and new: "r \<notin> round_ids d"
  proof -
    have no: "save_shot e q d \<noteq> (SuccessShot i, d')" for i d'
    proof
      assume "save_shot e q d = (SuccessShot i, d')"
      from save_shot_stored[OF this] obtain p row where
        "shot_args e q = Inr p" "shot_row_of e i p = Inr row" "s_round_id row \<in> round_ids d"
        by blast
      with rid have "r = s_round_id row"
        by (simp add: shot_args_Inr shot_row_of_Inr)
      with \<open>s_round_id row \<in> round_ids d\<close> new show False by simp
    qed
    with save_shot_cases[of e q d] show ?thesis by auto
  qed
  have hole: "\<not> succeeded (fst (save_hole e hq d)) \<and> status (fst (save_hole e hq d)) = 500 \<and>
      rounds (snd (save_hole e hq d)) = rounds d \<and>
      shots (snd (save_hole e hq d)) = shots d \<and>
      holes (snd (save_hole e hq d)) = holes d"
    if rid: "hq_round_id hq = Some (PVal r)" and new: "r \<notin> round_ids d"
  proof -
    have no: "\<not> (hole_args hq = Inr p \<and> insert_hole e p d = (Inr u, d'))" for p u d'
    proof
      assume a: "hole_args hq = Inr p \<and> insert_hole e p d = (Inr u, d')"
      with insert_hole_Inr[of e p d u d'] obtain row where
        "hole_row_of e (holes_seq d + 1) p = Inr row" "h_round_id row \<in> round_ids d"
        by blast
      with rid a have "r = h_round_id row"
        using hole_row_of_Inr[of e "holes_seq d + 1" p row] by (simp add: hole_args_Inr)
      with \<open>h_round_id row \<in> round_ids d\<close> new show False by simp
    qed
    with save_hole_cases[of e hq d] show ?thesis by auto
  qed
  from shot hole show ?thesis by blast
qed

theorem record_needs_existing_round_witness:
  "1001 \<notin> round_ids init_db \<and>
   \<not> succeeded (fst (save_shot \<lparr>app_clock = 100, db_clock = 200\<rparr>
     \<lparr>q_round_id = Some (PVal 1001), q_hole = Some (PVal 1), q_shot_number = Some (PVal 1),
      q_club = Some (PVal ''Driver''), q_shot_type = Some (PVal ''Tee''),
      q_latitude = Some (PVal 0x4042400000000000),
      q_longitude = Some (PVal 0xC05E79999999999A),
      q_accuracy = None, q_distance = None, q_timestamp = None\<rparr> init_db)) \<and>
   status (fst (save_shot \<lparr>app_clock = 100, db_clock = 200\<rparr>
     \<lparr>q_round_id = Some (PVal 1001), q_hole = Some (PVal 1), q_shot_number = Some (PVal 1),
      q_club = Some (PVal ''Driver''), q_shot_type = Some (PVal ''Tee''),
      q_latitude = Some (PVal 0x4042400000000000),
      q_longitude = Some (PVal 0xC05E79999999999A),
      q_accuracy = None, q_distance = None, q_timestamp = None\<rparr> init_db)) = 500 \<and>
   rounds (snd (save_shot \<lparr>app_clock = 100, db_clock = 200\<rparr>
     \<lparr>q_round_id = Some (PVal 1001), q_hole = Some (PVal 1), q_shot_number = Some (PVal 1),
      q_club = Some (PVal ''Driver''), q_shot_type = Some (PVal ''Tee''),
      q_latitude = Some (PVal 0x4042400000000000),
      q_longitude = Some (PVal 0xC05E79999999999A),
      q_accuracy = None, q_distance = None, q_timestamp = None\<rparr> init_db)) = [] \<and>
   shots (snd (save_shot \<lparr>app_clock = 100, db_clock = 200\<rparr>
     \<lparr>q_round_id = Some (PVal 1001), q_hole = Some (PVal 1), q_shot_number = Some (PVal 1),
      q_club = Some (PVal ''Driver''), q_shot_type = Some (PVal ''Tee''),
      q_latitude = Some (PVal 0x4042400000000000),
      q_longitude = Some (PVal 0xC05E79999999999A),
      q_accuracy = None, q_distance = None, q_timestamp = None\<rparr> init_db)) = [] \<and>
   \<not> succeeded (fst (save_hole \<lparr>app_clock = 100, db_clock = 200\<rparr>
     \<lparr>hq_round_id = Some (PVal 1001), hq_hole = Some (PVal 1),
      hq_score = Some (PVal 4), hq_notes = None\<rparr> init_db)) \<and>
   rounds (snd (save_hole \<lparr>app_clock = 100, db_clock = 200\<rparr>
     \<lparr>hq_round_id = Some (PVal 1001), hq_hole = Some (PVal 1),
      hq_score = Some (PVal 4), hq_notes = None\<rparr> init_db)) = [] \<and>
   holes (snd (save_hole \<lparr>app_clock = 100, db_clock = 200\<rparr>
     \<lparr>hq_round_id = Some (PVal 1001), hq_hole = Some (PVal 1),
      hq_score = Some (PVal 4), hq_notes = None\<rparr> init_db)) = []"
  (is "_ \<and> \<not> succeeded (fst (save_shot ?E ?Q _)) \<and> _ \<and> _ \<and> _ \<and>
       \<not> succeeded (fst (save_hole _ ?H _)) \<and> _ \<and> _")
proof -
  have new: "1001 \<notin> round_ids init_db"
    and none: "rounds init_db = []" "shots init_db = []" "holes init_db = []"
    by (simp_all add: round_ids_def init_db_def)
  from record_needs_existing_round[of ?Q 1001 init_db ?E ?H] new none
  show ?thesis by simp
qed

text \<open>
  As the specification words it, the first shot of an unknown round succeeds and leaves a
  placeholder round behind. On the empty database the shot of the specification's own
  scenario (latitude 36.5 and longitude -121.9, written as their bit patterns) is refused
  by the foreign key; the rounds table stays empty and only the sequence of
  \<^verbatim>\<open>shot_id\<close> has moved.
\<close>

theorem save_shot_creates_no_round_counterexample:
  "1001 \<notin> round_ids init_db \<and>
   save_shot \<lparr>app_clock = 100, db_clock = 200\<rparr>
     \<lparr>q_round_id = Some (PVal 1001), q_hole = Some (PVal 1), q_shot_number = Some (PVal 1),
      q_club = Some (PVal ''Driver''), q_shot_type = Some (PVal ''Tee''),
      q_latitude = Some (PVal 0x4042400000000000),
      q_longitude = Some (PVal 0xC05E79999999999A),
      q_accuracy = None, q_distance = None, q_timestamp = None\<rparr> init_db
   = (Failure ForeignKeyViolation,
      \<lparr>rounds = [], shots = [], holes = [], shots_seq = 1, holes_seq = 0\<rparr>)"
  by (simp add: init_db_def save_shot_def shot_args_def getitem_def get_def get_default_def insert_shot_def
      shot_params_bad_def nextval_def serial_max_def shot_row_of_def round_ids_def Let_def)

text \<open>
  C6. For every database and every shot request from which one of the keys \<^verbatim>\<open>round_id\<close>,
  \<^verbatim>\<open>hole\<close>, \<^verbatim>\<open>shot_number\<close>, \<^verbatim>\<open>club\<close>, \<^verbatim>\<open>shot_type\<close>, \<^verbatim>\<open>latitude\<close>, \<^verbatim>\<open>longitude\<close> is
  absent, record-shot answers with the error envelope of a \<^verbatim>\<open>KeyError\<close> and HTTP 500 and
  leaves the database exactly as it was. The keys \<^verbatim>\<open>accuracy\<close>, \<^verbatim>\<open>distance\<close> and
  \<^verbatim>\<open>timestamp\<close> are not required: whenever a request succeeds, the request with any of
  these three keys taken out succeeds as well.
\<close>

theorem save_shot_required_fields:
  "(q_round_id q = None \<or> q_hole q = None \<or> q_shot_number q = None \<or>
    q_club q = None \<or> q_shot_type q = None \<or> q_latitude q = None \<or> q_longitude q = None \<longrightarrow>
      (\<exists>k. save_shot e q d = (Failure (KeyError k), d)) \<and>
      status (fst (save_shot e q d)) = 500 \<and> \<not> succeeded (fst (save_shot e q d))) \<and>
   (succeeded (fst (save_shot e q d)) \<and>
    (a = None \<or> a = q_accuracy q) \<and> (b = None \<or> b = q_distance q) \<and>
    (c = None \<or> c = q_timestamp q) \<longrightarrow>
      succeeded (fst (save_shot e (q\<lparr>q_accuracy := a, q_distance := b, q_timestamp := c\<rparr>) d)))"
proof -
  have missing: "(\<exists>k. save_shot e q d = (Failure (KeyError k), d)) \<and>
      status (fst (save_shot e q d)) = 500 \<and> \<not> succeeded (fst (save_shot e q d))"
    if "q_round_id q = None \<or> q_hole q = None \<or> q_shot_number q = None \<or>
      q_club q = None \<or> q_shot_type q = None \<or> q_latitude q = None \<or> q_longitude q = None"
  proof -
    from shot_args_missing[OF that, of e] obtain k where "shot_args e q = Inl (KeyError k)" ..
    then have "save_shot e q d = (Failure (KeyError k), d)"
      by (simp add: save_shot_def)
    then show ?thesis by simp
  qed
  have optional: "succeeded (fst (save_shot e (q\<lparr>q_accuracy := a, q_distance := b, q_timestamp := c\<rparr>) d))"
    if h: "succeeded (fst (save_shot e q d)) \<and>
      (a = None \<or> a = q_accuracy q) \<and> (b = None \<or> b = q_distance q) \<and>
      (c = None \<or> c = q_timestamp q)"
  proof -
    let ?q' = "q\<lparr>q_accuracy := a, q_distance := b, q_timestamp := c\<rparr>"
    from h obtain i d' where "save_shot e q d = (SuccessShot i, d')"
      by (auto simp: succeeded_save_shot)
    from save_shot_stored[OF this] obtain p row where
      args: "shot_args e q = Inr p" and ok: "\<not> shot_params_bad p"
      and room: "shots_seq d < serial_max" and i: "i = shots_seq d + 1"
      and row: "shot_row_of e i p = Inr row"
      and fresh: "i \<notin> set (map s_shot_id (shots d))"
      and fk: "s_round_id row \<in> round_ids d"
      by blast
    define p' where "p' = p\<lparr>sp_accuracy := get a, sp_distance := get b,
       sp_timestamp := get_default c (PVal (app_clock e))\<rparr>"
    define row' where "row' = row\<lparr>s_accuracy := col (get a), s_distance := col (get b),
       s_timestamp := col (get_default c (PVal (app_clock e)))\<rparr>"
    have args': "shot_args e ?q' = Inr p'"
      using args by (simp add: shot_args_Inr p'_def)
    have ok': "\<not> shot_params_bad p'"
      using ok h args
      by (auto simp: shot_params_bad_def p'_def shot_args_Inr get_def get_default_def)
    have row': "shot_row_of e (shots_seq d + 1) p' = Inr row'"
      using row i unfolding shot_row_of_Inr
      by (simp add: p'_def row'_def) (cases row, simp)
    have "s_round_id row' \<in> round_ids d"
      using fk by (simp add: row'_def)
    from save_shot_accepts[OF args' ok' room row' _ this] fresh i
    show ?thesis by simp
  qed
  from missing optional show ?thesis by blast
qed

theorem save_shot_required_fields_witness:
  "save_shot \<lparr>app_clock = 100, db_clock = 200\<rparr>
     \<lparr>q_round_id = Some (PVal 1001), q_hole = Some (PVal 1), q_shot_number = Some (PVal 1),
      q_club = None, q_shot_type = Some (PVal ''Tee''),
      q_latitude = Some (PVal 0x4042400000000000),
      q_longitude = Some (PVal 0xC05E79999999999A),
      q_accuracy = None, q_distance = None, q_timestamp = None\<rparr>
     \<lparr>rounds =
       [\<lparr>r_round_id = 1001, r_date = 10, r_course_name = Some ''Pebble Creek'',
         r_total_holes = Some 0, r_total_shots = Some 0, r_total_score = None,
         r_weather = None, r_notes = None, r_synced_to_local = Some False,
         r_created_at = Some 11\<rparr>],
      shots = [], holes = [], shots_seq = 0, holes_seq = 0\<rparr>
   = (Failure (KeyError ''club''),
     \<lparr>rounds =
       [\<lparr>r_round_id = 1001, r_date = 10, r_course_name = Some ''Pebble Creek'',
         r_total_holes = Some 0, r_total_shots = Some 0, r_total_score = None,
         r_weather = None, r_notes = None, r_synced_to_local = Some False,
         r_created_at = Some 11\<rparr>],
      shots = [], holes = [], shots_seq = 0, holes_seq = 0\<rparr>) \<and>
   succeeded (fst (save_shot \<lparr>app_clock = 100, db_clock = 200\<rparr>
     \<lparr>q_round_id = Some (PVal 1001), q_hole = Some (PVal 1), q_shot_number = Some (PVal 1),
      q_club = Some (PVal ''Driver''), q_shot_type = Some (PVal ''Tee''),
      q_latitude = Some (PVal 0x4042400000000000),
      q_longitude = Some (PVal 0xC05E79999999999A),
      q_accuracy = Some (PVal 0x40A00000), q_distance = Some (PVal 250), q_timestamp = Some (PVal 90)\<rparr>
     \<lparr>rounds =
       [\<lparr>r_round_id = 1001, r_date = 10, r_course_name = Some ''Pebble Creek'',
         r_total_holes = Some 0, r_total_shots = Some 0, r_total_score = None,
         r_weather = None, r_notes = None, r_synced_to_local = Some False,
         r_created_at = Some 11\<rparr>],
      shots = [], holes = [], shots_seq = 0, holes_seq = 0\<rparr>)) \<and>
   succeeded (fst (save_shot \<lparr>app_clock = 100, db_clock = 200\<rparr>
     \<lparr>q_round_id = Some (PVal 1001), q_hole = Some (PVal 1), q_shot_number = Some (PVal 1),
      q_club = Some (PVal ''Driver''), q_shot_type = Some (PVal ''Tee''),
      q_latitude = Some (PVal 0x4042400000000000),
      q_longitude = Some (PVal 0xC05E79999999999A),
      q_accuracy = None, q_distance = None, q_timestamp = None\<rparr>
     \<lparr>rounds =
       [\<lparr>r_round_id = 1001, r_date = 10, r_course_name = Some ''Pebble Creek'',
         r_total_holes = Some 0, r_total_shots = Some 0, r_total_score = None,
         r_weather = None, r_notes = None, r_synced_to_local = Some False,
         r_created_at = Some 11\<rparr>],
      shots = [], holes = [], shots_seq = 0, holes_seq = 0\<rparr>))"
  (is "save_shot ?E ?Qm ?D = _ \<and> succeeded (fst (save_shot _ ?Qf _)) \<and> _")
proof -
  have missing: "q_club ?Qm = None" by simp
  have full: "succeeded (fst (save_shot ?E ?Qf ?D))"
    by (simp add: save_shot_def shot_args_def getitem_def get_def get_default_def insert_shot_def
      shot_params_bad_def nextval_def serial_max_def shot_row_of_def round_ids_def Let_def)
  from save_shot_required_fields[of ?Qm ?E ?D] missing
  have "\<exists>k. save_shot ?E ?Qm ?D = (Failure (KeyError k), ?D)" by blast
  moreover have "fst (save_shot ?E ?Qm ?D) = Failure (KeyError ''club'')"
    by (simp add: save_shot_def shot_args_def getitem_def)
  ultimately have 1: "save_shot ?E ?Qm ?D = (Failure (KeyError ''club''), ?D)"
    by auto
  from save_shot_required_fields[of ?Qf ?E ?D None None None] full
  have 2: "succeeded (fst (save_shot ?E (?Qf\<lparr>q_accuracy := None, q_distance := None,
     q_timestamp := None\<rparr>) ?D))" by blast
  from 1 2 full show ?thesis by simp
qed

text \<open>
  C7. A shot record is valid in a database when its submission succeeds. In every
  database whose shot identifiers were drawn from the sequence (none exceeds its last
  value), if a record is submitted successfully and the sequence is not exhausted by it,
  then submitting the same record again succeeds too, with another identifier, and the
  shots table ends with two distinct rows that carry the two identifiers and agree on
  every field of the record. Nothing is compared with the shots already stored.
\<close>

theorem duplicate_shot_submission:
  assumes inv: "\<forall>s \<in> set (shots d). s_shot_id s \<le> shots_seq d"
    and first: "save_shot e q d = (SuccessShot i, d1)"
    and room: "i < serial_max"
  shows "\<exists>j d2 row1 row2.
     save_shot e2 q d1 = (SuccessShot j, d2) \<and> j \<noteq> i \<and>
     shots d2 = shots d @ [row1, row2] \<and> row1 \<noteq> row2 \<and>
     s_shot_id row1 = i \<and> s_shot_id row2 = j \<and>
     s_round_id row2 = s_round_id row1 \<and> s_hole row2 = s_hole row1 \<and>
     s_shot_number row2 = s_shot_number row1 \<and> s_club row2 = s_club row1 \<and>
     s_shot_type row2 = s_shot_type row1 \<and> s_latitude row2 = s_latitude row1 \<and>
     s_longitude row2 = s_longitude row1 \<and> s_accuracy row2 = s_accuracy row1 \<and>
     s_distance row2 = s_distance row1 \<and>
     rounds d2 = rounds d \<and> holes d2 = holes d"
proof -
  from save_shot_stored[OF first] obtain p row1 where
    args: "shot_args e q = Inr p" and ok: "\<not> shot_params_bad p"
    and i: "i = shots_seq d + 1"
    and row1: "shot_row_of e i p = Inr row1"
    and fk: "s_round_id row1 \<in> round_ids d"
    and d1: "d1 = d\<lparr>shots_seq := i, shots := shots d @ [row1]\<rparr>"
    by blast
  define p2 where "p2 = p\<lparr>sp_timestamp := get_default (q_timestamp q) (PVal (app_clock e2))\<rparr>"
  define row2 where "row2 = row1\<lparr>s_shot_id := i + 1, s_timestamp := col (sp_timestamp p2),
     s_created_at := Some (db_clock e2)\<rparr>"
  have args2: "shot_args e2 q = Inr p2"
    using args by (simp add: shot_args_Inr p2_def)
  have ok2: "\<not> shot_params_bad p2"
    using ok args
    by (auto simp: shot_params_bad_def p2_def shot_args_Inr get_default_def split: option.splits)
  have seq1: "shots_seq d1 = i" and shots1: "shots d1 = shots d @ [row1]"
    and rounds1: "round_ids d1 = round_ids d"
    by (simp_all add: d1 round_ids_def)
  have id1: "s_shot_id row1 = i"
    using row1 unfolding shot_row_of_Inr by (cases row1) simp
  have r2: "shot_row_of e2 (shots_seq d1 + 1) p2 = Inr row2"
    using row1 unfolding shot_row_of_Inr seq1
    by (simp add: p2_def row2_def) (cases row1, simp)
  have fresh2: "shots_seq d1 + 1 \<notin> set (map s_shot_id (shots d1))"
    using inv i id1 by (auto simp: seq1 shots1)
  have fk2: "s_round_id row2 \<in> round_ids d1"
    using fk by (simp add: row2_def rounds1)
  have room2: "shots_seq d1 < serial_max"
    using room by (simp add: seq1)
  from save_shot_accepts[OF args2 ok2 room2 r2 fresh2 fk2]
  have "save_shot e2 q d1 =
     (SuccessShot (i + 1), d1\<lparr>shots_seq := i + 1, shots := shots d @ [row1, row2]\<rparr>)"
    by (simp add: seq1 shots1)
  moreover have "row1 \<noteq> row2"
    using id1 by (auto simp: row2_def dest: arg_cong[where f = s_shot_id])
  ultimately show ?thesis
    using id1 by (intro exI[of _ "i + 1"] exI[of _ "d1\<lparr>shots_seq := i + 1, shots := shots d @ [row1, row2]\<rparr>"]
        exI[of _ row1] exI[of _ row2]) (simp add: row2_def d1)
qed

theorem duplicate_shot_submission_witness:
  "fst (save_shot \<lparr>app_clock = 100, db_clock = 200\<rparr>
     \<lparr>q_round_id = Some (PVal 1001), q_hole = Some (PVal 1), q_shot_number = Some (PVal 1),
      q_club = Some (PVal ''Driver''), q_shot_type = Some (PVal ''Tee''),
      q_latitude = Some (PVal 0x4042400000000000),
      q_longitude = Some (PVal 0xC05E79999999999A),
      q_accuracy = None, q_distance = None, q_timestamp = None\<rparr>
     \<lparr>rounds =
       [\<lparr>r_round_id = 1001, r_date = 10, r_course_name = Some ''Pebble Creek'',
         r_total_holes = Some 0, r_total_shots = Some 0, r_total_score = None,
         r_weather = None, r_notes = None, r_synced_to_local = Some False,
         r_created_at = Some 11\<rparr>],
      shots = [\<lparr>s_shot_id = 1, s_round_id = 1001, s_hole = 1, s_shot_number = 1,
         s_club = ''Driver'', s_shot_type = ''Tee'',
         s_latitude = 0x4042400000000000, s_longitude = 0xC05E79999999999A,
         s_accuracy = None, s_distance = None, s_elevation_change = None,
         s_wind_speed = None, s_wind_direction = None, s_timestamp = Some 100,
         s_created_at = Some 200\<rparr>], holes = [], shots_seq = 1, holes_seq = 0\<rparr>) = SuccessShot 2 \<and>
   (\<exists>j d2. save_shot \<lparr>app_clock = 300, db_clock = 400\<rparr>
     \<lparr>q_round_id = Some (PVal 1001), q_hole = Some (PVal 1), q_shot_number = Some (PVal 1),
      q_club = Some (PVal ''Driver''), q_shot_type = Some (PVal ''Tee''),
      q_latitude = Some (PVal 0x4042400000000000),
      q_longitude = Some (PVal 0xC05E79999999999A),
      q_accuracy = None, q_distance = None, q_timestamp = None\<rparr>
     (snd (save_shot \<lparr>app_clock = 100, db_clock = 200\<rparr>
       \<lparr>q_round_id = Some (PVal 1001), q_hole = Some (PVal 1), q_shot_number = Some (PVal 1),
      q_club = Some (PVal ''Driver''), q_shot_type = Some (PVal ''Tee''),
      q_latitude = Some (PVal 0x4042400000000000),
      q_longitude = Some (PVal 0xC05E79999999999A),
      q_accuracy = None, q_distance = None, q_timestamp = None\<rparr>
       \<lparr>rounds =
       [\<lparr>r_round_id = 1001, r_date = 10, r_course_name = Some ''Pebble Creek'',
         r_total_holes = Some 0, r_total_shots = Some 0, r_total_score = None,
         r_weather = None, r_notes = None, r_synced_to_local = Some False,
         r_created_at = Some 11\<rparr>],
      shots = [\<lparr>s_shot_id = 1, s_round_id = 1001, s_hole = 1, s_shot_number = 1,
         s_club = ''Driver'', s_shot_type = ''Tee'',
         s_latitude = 0x4042400000000000, s_longitude = 0xC05E79999999999A,
         s_accuracy = None, s_distance = None, s_elevation_change = None,
         s_wind_speed = None, s_wind_direction = None, s_timestamp = Some 100,
         s_created_at = Some 200\<rparr>], holes = [], shots_seq = 1, holes_seq = 0\<rparr>)) = (SuccessShot j, d2) \<and> j \<noteq> 2 \<and> length (shots d2) = 3)"
  (is "fst (save_shot ?E ?Q ?D) = _ \<and> (\<exists>j d2. save_shot ?E2 _ _ = _ \<and> _ \<and> _)")
proof -
  have inv: "\<forall>s \<in> set (shots ?D). s_shot_id s \<le> shots_seq ?D" by simp
  have "fst (save_shot ?E ?Q ?D) = SuccessShot 2"
    by (simp add: save_shot_def shot_args_def getitem_def get_def get_default_def insert_shot_def
      shot_params_bad_def nextval_def serial_max_def shot_row_of_def round_ids_def Let_def)
  then have first: "save_shot ?E ?Q ?D = (SuccessShot 2, snd (save_shot ?E ?Q ?D))"
    by (metis prod.collapse)
  have room: "(2::int) < serial_max" by (simp add: serial_max_def)
  from duplicate_shot_submission[OF inv first room, of ?E2]
  obtain j d2 row1 row2 where
    second: "save_shot ?E2 ?Q (snd (save_shot ?E ?Q ?D)) = (SuccessShot j, d2)"
    and j: "j \<noteq> 2" and rows: "shots d2 = shots ?D @ [row1, row2]"
    by blast
  from rows have "length (shots d2) = 3" by simp
  with second j \<open>fst (save_shot ?E ?Q ?D) = SuccessShot 2\<close> show ?thesis by blast
qed

text \<open>
  C9. For every shot request whose \<^verbatim>\<open>timestamp\<close> key is present with the value \<^verbatim>\<open>null\<close>,
  a successful record-shot stores \<^verbatim>\<open>NULL\<close> as the timestamp of the new row; the time of
  the application's clock is stored when the key is absent.
\<close>

theorem null_timestamp_stored:
  "(q_timestamp q = Some PNull \<and> save_shot e q d = (SuccessShot i, d') \<longrightarrow>
      (\<exists>row. shots d' = shots d @ [row] \<and> s_shot_id row = i \<and> s_timestamp row = None)) \<and>
   (q_timestamp q = None \<and> save_shot e q d = (SuccessShot i, d') \<longrightarrow>
      (\<exists>row. shots d' = shots d @ [row] \<and> s_shot_id row = i \<and>
         s_timestamp row = Some (app_clock e)))"
proof -
  have stored: "\<exists>row. shots d' = shots d @ [row] \<and> s_shot_id row = i \<and>
      s_timestamp row = col (get_default (q_timestamp q) (PVal (app_clock e)))"
    if "save_shot e q d = (SuccessShot i, d')"
  proof -
    from save_shot_stored[OF that] obtain p row where
      args: "shot_args e q = Inr p" and row: "shot_row_of e i p = Inr row"
      and d': "d' = d\<lparr>shots_seq := i, shots := shots d @ [row]\<rparr>"
      by blast
    from row have "s_shot_id row = i" and "s_timestamp row = col (sp_timestamp p)"
      unfolding shot_row_of_Inr by (cases row, simp)+
    with args d' show ?thesis by (simp add: shot_args_Inr)
  qed
  then show ?thesis by (auto simp: get_default_def)
qed

theorem null_timestamp_stored_witness:
  "save_shot \<lparr>app_clock = 100, db_clock = 200\<rparr>
     \<lparr>q_round_id = Some (PVal 1001), q_hole = Some (PVal 1), q_shot_number = Some (PVal 1),
      q_club = Some (PVal ''Driver''), q_shot_type = Some (PVal ''Tee''),
      q_latitude = Some (PVal 0x4042400000000000),
      q_longitude = Some (PVal 0xC05E79999999999A),
      q_accuracy = None, q_distance = None, q_timestamp = Some PNull\<rparr>
     \<lparr>rounds =
       [\<lparr>r_round_id = 1001, r_date = 10, r_course_name = Some ''Pebble Creek'',
         r_total_holes = Some 0, r_total_shots = Some 0, r_total_score = None,
         r_weather = None, r_notes = None, r_synced_to_local = Some False,
         r_created_at = Some 11\<rparr>],
      shots = [], holes = [], shots_seq = 0, holes_seq = 0\<rparr>
   = (SuccessShot 1,
     \<lparr>rounds =
       [\<lparr>r_round_id = 1001, r_date = 10, r_course_name = Some ''Pebble Creek'',
         r_total_holes = Some 0, r_total_shots = Some 0, r_total_score = None,
         r_weather = None, r_notes = None, r_synced_to_local = Some False,
         r_created_at = Some 11\<rparr>],
      shots = [\<lparr>s_shot_id = 1, s_round_id = 1001, s_hole = 1, s_shot_number = 1,
         s_club = ''Driver'', s_shot_type = ''Tee'',
         s_latitude = 0x4042400000000000, s_longitude = 0xC05E79999999999A,
         s_accuracy = None, s_distance = None, s_elevation_change = None,
         s_wind_speed = None, s_wind_direction = None, s_timestamp = None,
         s_created_at = Some 200\<rparr>], holes = [], shots_seq = 1, holes_seq = 0\<rparr>) \<and>
   save_shot \<lparr>app_clock = 100, db_clock = 200\<rparr>
     \<lparr>q_round_id = Some (PVal 1001), q_hole = Some (PVal 1), q_shot_number = Some (PVal 1),
      q_club = Some (PVal ''Driver''), q_shot_type = Some (PVal ''Tee''),
      q_latitude = Some (PVal 0x4042400000000000),
      q_longitude = Some (PVal 0xC05E79999999999A),
      q_accuracy = None, q_distance = None, q_timestamp = None\<rparr>
     \<lparr>rounds =
       [\<lparr>r_round_id = 1001, r_date = 10, r_course_name = Some ''Pebble Creek'',
         r_total_holes = Some 0, r_total_shots = Some 0, r_total_score = None,
         r_weather = None, r_notes = None, r_synced_to_local = Some False,
         r_created_at = Some 11\<rparr>],
      shots = [], holes = [], shots_seq = 0, holes_seq = 0\<rparr>
   = (SuccessShot 1,
     \<lparr>rounds =
       [\<lparr>r_round_id = 1001, r_date = 10, r_course_name = Some ''Pebble Creek'',
         r_total_holes = Some 0, r_total_shots = Some 0, r_total_score = None,
         r_weather = None, r_notes = None, r_synced_to_local = Some False,
         r_created_at = Some 11\<rparr>],
      shots = [\<lparr>s_shot_id = 1, s_round_id = 1001, s_hole = 1, s_shot_number = 1,
         s_club = ''Driver'', s_shot_type = ''Tee'',
         s_latitude = 0x4042400000000000, s_longitude = 0xC05E79999999999A,
         s_accuracy = None, s_distance = None, s_elevation_change = None,
         s_wind_speed = None, s_wind_direction = None, s_timestamp = Some 100,
         s_created_at = Some 200\<rparr>], holes = [], shots_seq = 1, holes_seq = 0\<rparr>)"
  (is "save_shot ?E ?Qn ?D = (_, ?Dn) \<and> save_shot _ ?Qa _ = (_, ?Da)")
proof -
  have 1: "save_shot ?E ?Qn ?D = (SuccessShot 1, ?Dn)"
    by (simp add: save_shot_def shot_args_def getitem_def get_def get_default_def insert_shot_def
      shot_params_bad_def nextval_def serial_max_def shot_row_of_def round_ids_def Let_def)
  have 2: "save_shot ?E ?Qa ?D = (SuccessShot 1, ?Da)"
    by (simp add: save_shot_def shot_args_def getitem_def get_def get_default_def insert_shot_def
      shot_params_bad_def nextval_def serial_max_def shot_row_of_def round_ids_def Let_def)
  from null_timestamp_stored[of ?Qn ?E ?D 1 ?Dn] null_timestamp_stored[of ?Qa ?E ?D 1 ?Da] 1 2
  show ?thesis by simp
qed

section \<open>Sequences of calls\<close>

lemma insert_shot_rounds: "rounds (snd (insert_shot e p d)) = rounds d"
  by (auto simp: insert_shot_def Let_def split: sum.splits)

lemma save_shot_rounds: "rounds (snd (save_shot e q d)) = rounds d"
  using insert_shot_rounds[of e _ d]
  by (auto simp: save_shot_def split: sum.splits prod.splits) (metis snd_conv)+

lemma insert_hole_rounds: "rounds (snd (insert_hole e p d)) = rounds d"
  by (auto simp: insert_hole_def Let_def split: sum.splits)

lemma save_hole_rounds: "rounds (snd (save_hole e q d)) = rounds d"
  using insert_hole_rounds[of e _ d]
  by (auto simp: save_hole_def split: sum.splits prod.splits) (metis snd_conv)+

lemma mark_synced_rounds:
  "rounds (snd (mark_synced x d)) = rounds d \<or>
   (\<exists>r. x = PVal r \<and> rounds (snd (mark_synced x d)) =
      map (\<lambda>row. if r_round_id row = r then row\<lparr>r_synced_to_local := Some True\<rparr> else row)
        (rounds d))"
  by (cases x) (simp_all add: mark_synced_def)

text \<open>What one call can do to the rounds table.\<close>

lemma handle_rounds:
  "rounds (snd (handle c d)) = rounds d \<or>
   (\<exists>new. r_round_id new \<notin> round_ids d \<and> r_synced_to_local new = Some False \<and>
      rounds (snd (handle c d)) = rounds d @ [new]) \<or>
   (\<exists>new. r_round_id new \<in> round_ids d \<and> (\<exists>e q. c = SaveRound e q) \<and>
      rounds (snd (handle c d)) =
        map (\<lambda>row. if r_round_id row = r_round_id new then do_update new row else row) (rounds d)) \<or>
   (\<exists>r. c = MarkSynced (PVal r) \<and> rounds (snd (handle c d)) =
      map (\<lambda>row. if r_round_id row = r then row\<lparr>r_synced_to_local := Some True\<rparr> else row)
        (rounds d))"
proof (cases c)
  case (SaveShot e q)
  then show ?thesis by (simp add: save_shot_rounds)
next
  case (SaveHole e q)
  then show ?thesis by (simp add: save_hole_rounds)
next
  case (SaveRound e q)
  with save_round_rounds[of e q d] show ?thesis by auto
next
  case ExportUnsynced
  then show ?thesis by (simp add: export_unsynced_def)
next
  case (MarkSynced x)
  with mark_synced_rounds[of x d] show ?thesis by auto
next
  case HealthCheck
  then show ?thesis by (simp add: health_check_def)
next
  case Index
  then show ?thesis by (simp add: index_def)
qed

lemma handle_new_rows:
  assumes "length (rounds d) \<le> i" and "i < length (rounds (snd (handle c d)))"
  shows "r_synced_to_local (rounds (snd (handle c d)) ! i) = Some False"
  using handle_rounds[of c d] assms by (auto simp: nth_append)

lemma handle_old_rows:
  assumes "i < length (rounds d)"
  shows "i < length (rounds (snd (handle c d))) \<and>
     r_round_id (rounds (snd (handle c d)) ! i) = r_round_id (rounds d ! i) \<and>
     (r_synced_to_local (rounds (snd (handle c d)) ! i) = r_synced_to_local (rounds d ! i) \<or>
      (\<exists>r. c = MarkSynced (PVal r)) \<and>
        r_synced_to_local (rounds (snd (handle c d)) ! i) = Some True)"
  using handle_rounds[of c d] assms
  by (auto simp: nth_append split: if_splits)

lemma handle_round_ids:
  "map r_round_id (rounds (snd (handle c d))) = map r_round_id (rounds d) \<or>
   (\<exists>k. k \<notin> round_ids d \<and>
      map r_round_id (rounds (snd (handle c d))) = map r_round_id (rounds d) @ [k])"
  using handle_rounds[of c d]
  by (auto simp: o_def if_distrib[where f = r_round_id] cong: if_cong)

lemma handle_distinct:
  assumes "distinct (map r_round_id (rounds d))"
  shows "distinct (map r_round_id (rounds (snd (handle c d))))"
  using handle_round_ids[of c d] assms
  by (auto simp: round_ids_def)

lemma run_distinct:
  "distinct (map r_round_id (rounds d)) \<Longrightarrow> distinct (map r_round_id (rounds (run cs d)))"
  by (induction cs arbitrary: d) (simp_all add: handle_distinct)

lemma run_keeps_synced:
  assumes "i < length (rounds d)" and "r_synced_to_local (rounds d ! i) = Some True"
  shows "i < length (rounds (run cs d)) \<and>
     r_round_id (rounds (run cs d) ! i) = r_round_id (rounds d ! i) \<and>
     r_synced_to_local (rounds (run cs d) ! i) = Some True"
  using assms
proof (induction cs arbitrary: d)
  case Nil
  then show ?case by simp
next
  case (Cons c cs)
  from handle_old_rows[OF Cons.prems(1), of c] Cons.prems(2)
  have 1: "i < length (rounds (snd (handle c d)))"
    and 2: "r_round_id (rounds (snd (handle c d)) ! i) = r_round_id (rounds d ! i)"
    and 3: "r_synced_to_local (rounds (snd (handle c d)) ! i) = Some True"
    by auto
  from Cons.IH[OF 1 3] 2 show ?case by simp
qed

lemma insert_shot_ids:
  assumes "\<forall>s\<in>set (shots d). s_shot_id s \<le> shots_seq d"
  shows "\<forall>s\<in>set (shots (snd (insert_shot e p d))).
     s_shot_id s \<le> shots_seq (snd (insert_shot e p d))"
proof (cases "insert_shot e p d")
  case (Pair res d')
  show ?thesis
  proof (cases res)
    case (Inl err)
    with Pair have "shots d' = shots d" and "shots_seq d \<le> shots_seq d'"
      by (auto simp: insert_shot_def Let_def split: sum.splits if_splits)
    with assms Pair show ?thesis by fastforce
  next
    case (Inr i)
    with Pair have "insert_shot e p d = (Inr i, d')" by simp
    then obtain row where "shot_row_of e i p = Inr row" and "i = shots_seq d + 1"
      and "d' = d\<lparr>shots_seq := i, shots := shots d @ [row]\<rparr>"
      unfolding insert_shot_Inr by blast
    moreover from this have "s_shot_id row = i"
      unfolding shot_row_of_Inr by (cases row) simp
    ultimately show ?thesis using assms Pair by fastforce
  qed
qed

lemma insert_hole_shots:
  "shots (snd (insert_hole e p d)) = shots d \<and> shots_seq (snd (insert_hole e p d)) = shots_seq d"
  by (auto simp: insert_hole_def Let_def split: sum.splits)

lemma handle_shot_ids:
  assumes "\<forall>s\<in>set (shots d). s_shot_id s \<le> shots_seq d"
  shows "\<forall>s\<in>set (shots (snd (handle c d))). s_shot_id s \<le> shots_seq (snd (handle c d))"
proof (cases c)
  case (SaveShot e q)
  show ?thesis
  proof (cases "shot_args e q")
    case (Inl err)
    with SaveShot assms show ?thesis by (simp add: save_shot_def)
  next
    case (Inr p)
    then have "snd (save_shot e q d) = snd (insert_shot e p d)"
      by (auto simp: save_shot_def split: sum.splits prod.splits)
    with insert_shot_ids[OF assms, of e p] SaveShot show ?thesis by simp
  qed
next
  case (SaveHole e q)
  show ?thesis
  proof (cases "hole_args q")
    case (Inl err)
    with SaveHole assms show ?thesis by (simp add: save_hole_def)
  next
    case (Inr p)
    then have "snd (save_hole e q d) = snd (insert_hole e p d)"
      by (auto simp: save_hole_def split: sum.splits prod.splits)
    with insert_hole_shots[of e p d] SaveHole assms show ?thesis by simp
  qed
next
  case (SaveRound e q)
  have "shots (snd (save_round e q d)) = shots d \<and> shots_seq (snd (save_round e q d)) = shots_seq d"
    by (auto simp: save_round_snd upsert_round_def split: sum.splits)
  with SaveRound assms show ?thesis by simp
next
  case ExportUnsynced
  with assms show ?thesis by (simp add: export_unsynced_def)
next
  case (MarkSynced x)
  with assms show ?thesis by (cases x) (simp_all add: mark_synced_def)
next
  case HealthCheck
  with assms show ?thesis by (simp add: health_check_def)
next
  case Index
  with assms show ?thesis by (simp add: index_def)
qed

lemma run_shot_ids:
  "\<forall>s\<in>set (shots d). s_shot_id s \<le> shots_seq d \<Longrightarrow>
   \<forall>s\<in>set (shots (run cs d)). s_shot_id s \<le> shots_seq (run cs d)"
  by (induction cs arbitrary: d) (simp_all add: handle_shot_ids)

text \<open>Every database built from the empty one by calls of the API keeps the
  identifiers of its rounds distinct and the identifiers of its shots no greater than
  the last value of their sequence.\<close>

lemma reachable_invariants:
  "distinct (map r_round_id (rounds (run cs init_db))) \<and>
   (\<forall>s\<in>set (shots (run cs init_db)). s_shot_id s \<le> shots_seq (run cs init_db))"
proof -
  have "distinct (map r_round_id (rounds init_db))"
    and "\<forall>s\<in>set (shots init_db). s_shot_id s \<le> shots_seq init_db"
    by (simp_all add: init_db_def)
  then show ?thesis
    using run_distinct run_shot_ids by blast
qed

text \<open>
  C10. A row that a call adds to the rounds table starts with \<^verbatim>\<open>synced_to_local\<close> false.
  A call keeps every row of the rounds table in its place with its identifier, and
  either leaves the row's flag as it was or is a mark-synced call and has set the flag to
  true. Hence, in a rounds table with distinct identifiers, a round whose flag is true
  is still stored after any sequence of calls, and its flag is still true.
\<close>

theorem synced_is_permanent:
  "(\<forall>i. length (rounds d) \<le> i \<and> i < length (rounds (snd (handle c d))) \<longrightarrow>
       r_synced_to_local (rounds (snd (handle c d)) ! i) = Some False) \<and>
   (\<forall>i<length (rounds d).
       i < length (rounds (snd (handle c d))) \<and>
       r_round_id (rounds (snd (handle c d)) ! i) = r_round_id (rounds d ! i) \<and>
       (r_synced_to_local (rounds (snd (handle c d)) ! i) = r_synced_to_local (rounds d ! i) \<or>
        (\<exists>r. c = MarkSynced (PVal r)) \<and>
          r_synced_to_local (rounds (snd (handle c d)) ! i) = Some True)) \<and>
   (distinct (map r_round_id (rounds d)) \<and> x \<in> set (rounds d) \<and>
    r_synced_to_local x = Some True \<longrightarrow>
       (\<exists>y \<in> set (rounds (run cs d)). r_round_id y = r_round_id x) \<and>
       (\<forall>y \<in> set (rounds (run cs d)).
           r_round_id y = r_round_id x \<longrightarrow> r_synced_to_local y = Some True))"
proof -
  have stays: "(\<exists>y \<in> set (rounds (run cs d)). r_round_id y = r_round_id x) \<and>
       (\<forall>y \<in> set (rounds (run cs d)).
           r_round_id y = r_round_id x \<longrightarrow> r_synced_to_local y = Some True)"
    if dist: "distinct (map r_round_id (rounds d))" and x: "x \<in> set (rounds d)"
      and syn: "r_synced_to_local x = Some True"
  proof -
    from x obtain i where i: "i < length (rounds d)" and xi: "rounds d ! i = x"
      by (auto simp: in_set_conv_nth)
    from run_keeps_synced[OF i, of cs] syn xi
    have len: "i < length (rounds (run cs d))"
      and idi: "r_round_id (rounds (run cs d) ! i) = r_round_id x"
      and syni: "r_synced_to_local (rounds (run cs d) ! i) = Some True"
      by auto
    have dist': "distinct (map r_round_id (rounds (run cs d)))"
      using dist by (rule run_distinct)
    have "r_synced_to_local y = Some True"
      if y: "y \<in> set (rounds (run cs d))" and idy: "r_round_id y = r_round_id x" for y
    proof -
      from y obtain j where j: "j < length (rounds (run cs d))" and yj: "rounds (run cs d) ! j = y"
        by (auto simp: in_set_conv_nth)
      have same: "map r_round_id (rounds (run cs d)) ! j = map r_round_id (rounds (run cs d)) ! i"
        using j len yj idy idi by simp
      have "(map r_round_id (rounds (run cs d)) ! j = map r_round_id (rounds (run cs d)) ! i)
          = (j = i)"
        using dist' j len by (intro nth_eq_iff_index_eq) simp_all
      with same have "j = i" by blast
      with yj syni show ?thesis by simp
    qed
    moreover have "\<exists>y \<in> set (rounds (run cs d)). r_round_id y = r_round_id x"
      using len idi nth_mem[OF len] by blast
    ultimately show ?thesis by blast
  qed
  from handle_new_rows[of d _ c] handle_old_rows[of _ d c] stays
  show ?thesis by blast
qed

theorem synced_is_permanent_witness:
  "map (\<lambda>r. (r_round_id r, r_synced_to_local r))
     (rounds (run
     [SaveRound \<lparr>app_clock = 300, db_clock = 400\<rparr>
       \<lparr>u_round_id = Some (PVal 1001), u_date = None,
        u_course_name = Some (PVal ''Spyglass''),
        u_total_holes = Some (PVal 18), u_total_shots = None\<rparr>,
      ExportUnsynced,
      SaveRound \<lparr>app_clock = 300, db_clock = 400\<rparr>
       \<lparr>u_round_id = Some (PVal 1002), u_date = None,
        u_course_name = Some (PVal ''Cypress''),
        u_total_holes = Some (PVal 18), u_total_shots = None\<rparr>,
      MarkSynced (PVal 7)]
     \<lparr>rounds =
       [\<lparr>r_round_id = 1001, r_date = 10, r_course_name = Some ''Pebble Creek'',
         r_total_holes = Some 0, r_total_shots = Some 0, r_total_score = None,
         r_weather = None, r_notes = None, r_synced_to_local = Some True,
         r_created_at = Some 11\<rparr>],
      shots = [], holes = [], shots_seq = 0, holes_seq = 0\<rparr>))
   = [(1001, Some True), (1002, Some False)] \<and>
   map (\<lambda>r. (r_round_id r, r_synced_to_local r))
     (rounds (snd (handle
     (SaveRound \<lparr>app_clock = 300, db_clock = 400\<rparr>
       \<lparr>u_round_id = Some (PVal 1002), u_date = None,
        u_course_name = Some (PVal ''Cypress''),
        u_total_holes = Some (PVal 18), u_total_shots = None\<rparr>)
     \<lparr>rounds =
       [\<lparr>r_round_id = 1001, r_date = 10, r_course_name = Some ''Pebble Creek'',
         r_total_holes = Some 0, r_total_shots = Some 0, r_total_score = None,
         r_weather = None, r_notes = None, r_synced_to_local = Some True,
         r_created_at = Some 11\<rparr>],
      shots = [], holes = [], shots_seq = 0, holes_seq = 0\<rparr>)))
   = [(1001, Some True), (1002, Some False)]"
  (is "map _ (rounds (run ?cs ?D)) = _ \<and> map _ (rounds (snd (handle ?c _))) = _")
proof -
  let ?x = "\<lparr>r_round_id = 1001, r_date = 10, r_course_name = Some ''Pebble Creek'',
         r_total_holes = Some 0, r_total_shots = Some 0, r_total_score = None,
         r_weather = None, r_notes = None, r_synced_to_local = Some True,
         r_created_at = Some 11\<rparr>"
  have pk: "distinct (map r_round_id (rounds ?D))" and x: "?x \<in> set (rounds ?D)"
    and syn: "r_synced_to_local ?x = Some True"
    by simp_all
  have 1: "map (\<lambda>r. (r_round_id r, r_synced_to_local r)) (rounds (run ?cs ?D))
     = [(1001, Some True), (1002, Some False)]"
    by (simp add: save_round_def round_args_def getitem_def get_default_def get_def
        upsert_round_def round_params_bad_def round_row_of_def round_ids_def do_update_def
        export_unsynced_def mark_synced_def)
  have 2: "map (\<lambda>r. (r_round_id r, r_synced_to_local r)) (rounds (snd (handle ?c ?D)))
     = [(1001, Some True), (1002, Some False)]"
    by (simp add: save_round_def round_args_def getitem_def get_default_def get_def
        upsert_round_def round_params_bad_def round_row_of_def round_ids_def)
  from synced_is_permanent[of ?D ?c ?x ?cs] pk x syn 1 2 show ?thesis by simp
qed

end
